theory Spec2Isabelle
  imports Main "HOL-Library.Word"
begin

section \<open>JavaScript values\<close>

text \<open>
  The admin lesson script works on untyped JavaScript values: the criteria object handed to
  \<^verbatim>\<open>populateValidationFields\<close> may be \<^verbatim>\<open>null\<close>, may lack properties, and the value
  returned by \<^verbatim>\<open>buildValidationCriteria\<close> is \<^verbatim>\<open>null\<close> or an object. Values are modelled
  by one datatype. A string is a sequence of 16-bit code units. The numbers are those of
  the platform and stay abstract: the type parameter \<open>'n\<close>. An object is the list of its own
  properties in enumeration order; the script creates properties with the names
  \<^verbatim>\<open>type\<close>, \<^verbatim>\<open>function_name\<close>, \<^verbatim>\<open>args\<close> and \<^verbatim>\<open>expected\<close> only, which enumerate in
  the order of their creation.
\<close>

type_synonym code_unit = "16 word"

type_synonym jsstring = "code_unit list"

datatype 'n jsval =
    JUndefined
  | JNull
  | JBool bool
  | JNum 'n
  | JStr jsstring
  | JArr "'n jsval list"
  | JObj "(jsstring \<times> 'n jsval) list"

text \<open>\<open>js\<close> gives the code units of a string literal of the script, whose characters are
  all ASCII.\<close>

definition js :: "string \<Rightarrow> jsstring" where
  "js s = map of_char s"

section \<open>The platform\<close>

text \<open>
  The script calls four operations that the language provides and that it does not define.
  They are parameters of the model, so that every theorem below holds whatever they
  compute:
  \<^item> \<open>JSON_parse\<close> is \<^verbatim>\<open>JSON.parse\<close>; \<open>None\<close> stands for the \<^verbatim>\<open>SyntaxError\<close> it throws
    on a text that is not JSON;
  \<^item> \<open>json_text\<close> is the text that \<^verbatim>\<open>JSON.stringify\<close> returns for a value other than
    \<^verbatim>\<open>undefined\<close>;
  \<^item> \<open>number_to_string\<close> is the conversion of a number to a string;
  \<^item> \<open>number_truthy\<close> tells the numbers that count as true (all but zero and NaN).
\<close>

record 'n platform =
  JSON_parse :: "jsstring \<Rightarrow> 'n jsval option"
  json_text :: "'n jsval \<Rightarrow> jsstring"
  number_to_string :: "'n \<Rightarrow> jsstring"
  number_truthy :: "'n \<Rightarrow> bool"

text \<open>\<^verbatim>\<open>JSON.stringify(undefined)\<close> is \<^verbatim>\<open>undefined\<close>; for every other value of the
  datatype the result is a string.\<close>

definition JSON_stringify :: "'n platform \<Rightarrow> 'n jsval \<Rightarrow> 'n jsval" where
  "JSON_stringify P v = (case v of JUndefined \<Rightarrow> JUndefined | _ \<Rightarrow> JStr (json_text P v))"

subsection \<open>Operators of the language\<close>

definition truthy :: "'n platform \<Rightarrow> 'n jsval \<Rightarrow> bool" where
  "truthy P v =
     (case v of
        JUndefined \<Rightarrow> False
      | JNull \<Rightarrow> False
      | JBool b \<Rightarrow> b
      | JNum n \<Rightarrow> number_truthy P n
      | JStr s \<Rightarrow> s \<noteq> []
      | JArr _ \<Rightarrow> True
      | JObj _ \<Rightarrow> True)"

definition js_or :: "'n platform \<Rightarrow> 'n jsval \<Rightarrow> 'n jsval \<Rightarrow> 'n jsval" where
  "js_or P a b = (if truthy P a then a else b)"

text \<open>Reading a property that an object does not have, or a property of a value that is
  no object, gives \<^verbatim>\<open>undefined\<close>.\<close>

definition get_prop :: "'n jsval \<Rightarrow> jsstring \<Rightarrow> 'n jsval" where
  "get_prop v k =
     (case v of
        JObj ps \<Rightarrow> (case map_of ps k of None \<Rightarrow> JUndefined | Some x \<Rightarrow> x)
      | _ \<Rightarrow> JUndefined)"

text \<open>An assignment to a property replaces its value in place, or adds the property at
  the end.\<close>

fun set_prop :: "(jsstring \<times> 'n jsval) list \<Rightarrow> jsstring \<Rightarrow> 'n jsval \<Rightarrow> (jsstring \<times> 'n jsval) list" where
  "set_prop [] k v = [(k, v)]"
| "set_prop ((k', v') # ps) k v = (if k' = k then (k, v) # ps else (k', v') # set_prop ps k v)"

definition assign_prop :: "'n jsval \<Rightarrow> jsstring \<Rightarrow> 'n jsval \<Rightarrow> 'n jsval" where
  "assign_prop obj k v = (case obj of JObj ps \<Rightarrow> JObj (set_prop ps k v) | _ \<Rightarrow> obj)"

text \<open>
  \<open>to_String\<close> is the conversion to a string that an assignment to the \<^verbatim>\<open>value\<close> of a
  form control applies: \<^verbatim>\<open>undefined\<close> becomes the text \<^verbatim>\<open>undefined\<close>, an array is
  joined with commas, an object is \<^verbatim>\<open>[object Object]\<close>.
\<close>

fun join :: "'a list \<Rightarrow> 'a list list \<Rightarrow> 'a list" where
  "join sep [] = []"
| "join sep [x] = x"
| "join sep (x # y # ys) = x @ sep @ join sep (y # ys)"

fun to_String :: "'n platform \<Rightarrow> 'n jsval \<Rightarrow> jsstring" where
  "to_String P JUndefined = js ''undefined''"
| "to_String P JNull = js ''null''"
| "to_String P (JBool b) = (if b then js ''true'' else js ''false'')"
| "to_String P (JNum n) = number_to_string P n"
| "to_String P (JStr s) = s"
| "to_String P (JArr vs) =
     join (js '','') (map (\<lambda>v. if v = JUndefined \<or> v = JNull then [] else to_String P v) vs)"
| "to_String P (JObj kvs) = js ''[object Object]''"

section \<open>The page\<close>

text \<open>
  The script reads and writes two parts of the document: the \<^verbatim>\<open>value\<close> of the type
  selector (element \<^verbatim>\<open>validationType\<close>) and the children of the container
  \<^verbatim>\<open>validation-fields\<close>. A child is one labelled control of a template; the wrapping
  \<^verbatim>\<open>div\<close> elements and the class attributes carry no behaviour and are left out.
  The selector keeps the string assigned to it: its element and its options are declared
  in the page template, which is not part of the script.
\<close>

datatype control = Textarea | InputText

record form_field =
  field_label :: jsstring
  field_control :: control
  field_id :: jsstring
  field_value :: jsstring

record page =
  validationTypeSelector :: jsstring
  validationFieldsContainer :: "form_field list"

datatype effect = ConsoleError jsstring | Alert jsstring

definition fieldTemplates_expected :: "form_field list" where
  "fieldTemplates_expected =
     [\<lparr>field_label = js ''Expected Output'', field_control = Textarea,
       field_id = js ''expectedOutput'', field_value = []\<rparr>]"

definition fieldTemplates_function_call :: "form_field list" where
  "fieldTemplates_function_call =
     [\<lparr>field_label = js ''Function Name'', field_control = InputText,
       field_id = js ''functionName'', field_value = []\<rparr>,
      \<lparr>field_label = js ''Arguments (as JSON array)'', field_control = InputText,
       field_id = js ''functionArgs'', field_value = []\<rparr>,
      \<lparr>field_label = js ''Expected Return Value'', field_control = InputText,
       field_id = js ''expectedOutput'', field_value = []\<rparr>]"

text \<open>
  \<^verbatim>\<open>document.getElementById\<close> returns the first element with the id, in document order;
  the ids of the templates occur nowhere else in the page.
\<close>

definition getElementById :: "page \<Rightarrow> jsstring \<Rightarrow> form_field option" where
  "getElementById p i = find (\<lambda>f. field_id f = i) (validationFieldsContainer p)"

text \<open>\<^verbatim>\<open>document.getElementById(i)?.value || d\<close>: the default replaces a missing element
  and an empty value alike.\<close>

definition value_or :: "form_field option \<Rightarrow> jsstring \<Rightarrow> jsstring" where
  "value_or e d = (case e of None \<Rightarrow> d | Some f \<Rightarrow> if field_value f = [] then d else field_value f)"

subsection \<open>What a control keeps of an assigned value\<close>

text \<open>
  A control does not keep every string. An \<^verbatim>\<open>input\<close> of type \<^verbatim>\<open>text\<close> removes each
  line feed and each carriage return from a value assigned to it. The \<^verbatim>\<open>value\<close> of a
  \<^verbatim>\<open>textarea\<close> reads back with every pair of carriage return and line feed, and every
  other carriage return, replaced by one line feed.
\<close>

definition line_feed :: code_unit where
  "line_feed = 0x0A"

definition carriage_return :: code_unit where
  "carriage_return = 0x0D"

definition strip_newlines :: "jsstring \<Rightarrow> jsstring" where
  "strip_newlines s = filter (\<lambda>c. c \<noteq> line_feed \<and> c \<noteq> carriage_return) s"

fun normalize_newlines :: "jsstring \<Rightarrow> jsstring" where
  "normalize_newlines [] = []"
| "normalize_newlines [c] = [if c = carriage_return then line_feed else c]"
| "normalize_newlines (c # d # ds) =
     (if c = carriage_return \<and> d = line_feed then line_feed # normalize_newlines ds
      else if c = carriage_return then line_feed # normalize_newlines (d # ds)
      else c # normalize_newlines (d # ds))"

definition sanitize :: "control \<Rightarrow> jsstring \<Rightarrow> jsstring" where
  "sanitize k s = (case k of InputText \<Rightarrow> strip_newlines s | Textarea \<Rightarrow> normalize_newlines s)"

text \<open>\<^verbatim>\<open>if (document.getElementById(i)) document.getElementById(i).value = v\<close>: the first
  element with the id receives the value; without such an element nothing changes.\<close>

fun assign_value :: "jsstring \<Rightarrow> jsstring \<Rightarrow> form_field list \<Rightarrow> form_field list" where
  "assign_value i v [] = []"
| "assign_value i v (f # fs) =
     (if field_id f = i then f\<lparr>field_value := sanitize (field_control f) v\<rparr> # fs
      else f # assign_value i v fs)"

definition set_value :: "jsstring \<Rightarrow> jsstring \<Rightarrow> page \<Rightarrow> page" where
  "set_value i v p =
     p\<lparr>validationFieldsContainer := assign_value i v (validationFieldsContainer p)\<rparr>"

section \<open>The three operations\<close>

subsection \<open>handleValidationChange\<close>

text \<open>The container is emptied first; the \<^verbatim>\<open>switch\<close> has no default branch.\<close>

definition handleValidationChange :: "page \<Rightarrow> page" where
  "handleValidationChange p =
     (let selectedType = validationTypeSelector p;
          p1 = p\<lparr>validationFieldsContainer := []\<rparr>
      in if selectedType = js ''exact_match'' \<or> selectedType = js ''contains'' then
           p1\<lparr>validationFieldsContainer := fieldTemplates_expected\<rparr>
         else if selectedType = js ''function_call'' then
           p1\<lparr>validationFieldsContainer := fieldTemplates_function_call\<rparr>
         else p1)"

subsection \<open>buildValidationCriteria\<close>

text \<open>
  The result is the list of effects (the console message and the alert of the first
  \<^verbatim>\<open>catch\<close>) and the returned value, \<open>JNull\<close> or the criteria object. The exception
  object printed after the console message is left out.
\<close>

definition args_error_log :: jsstring where
  "args_error_log = js ''Invalid JSON for function arguments:''"

definition args_error_alert :: jsstring where
  "args_error_alert = js ''The 'Arguments' field contains invalid JSON. Please correct it.''"

definition buildValidationCriteria :: "'n platform \<Rightarrow> page \<Rightarrow> effect list \<times> 'n jsval" where
  "buildValidationCriteria P p =
     (let type = validationTypeSelector p
      in if type = js ''none'' \<or> type = [] then ([], JNull)
         else
           let criteria = JObj [(js ''type'', JStr type)]
           in if type = js ''exact_match'' \<or> type = js ''contains'' then
                ([], assign_prop criteria (js ''expected'')
                       (JStr (value_or (getElementById p (js ''expectedOutput'')) [])))
              else if type = js ''function_call'' then
                let criteria1 = assign_prop criteria (js ''function_name'')
                                  (JStr (value_or (getElementById p (js ''functionName'')) []));
                    argsStr = value_or (getElementById p (js ''functionArgs'')) (js ''[]'');
                    (effects, criteria2) =
                      (case JSON_parse P argsStr of
                         Some a \<Rightarrow> ([], assign_prop criteria1 (js ''args'') a)
                       | None \<Rightarrow>
                           ([ConsoleError args_error_log, Alert args_error_alert],
                            assign_prop criteria1 (js ''args'') (JArr [])));
                    expectedVal = value_or (getElementById p (js ''expectedOutput'')) [];
                    criteria3 =
                      (case JSON_parse P expectedVal of
                         Some e \<Rightarrow> assign_prop criteria2 (js ''expected'') e
                       | None \<Rightarrow> assign_prop criteria2 (js ''expected'') (JStr expectedVal))
                in (effects, criteria3)
              else ([], criteria))"

subsection \<open>populateValidationFields\<close>

definition populateValidationFields :: "'n platform \<Rightarrow> 'n jsval \<Rightarrow> page \<Rightarrow> page" where
  "populateValidationFields P criteria p =
     (let p1 = (if \<not> truthy P criteria \<or> \<not> truthy P (get_prop criteria (js ''type''))
                then p\<lparr>validationTypeSelector := js ''none''\<rparr>
                else p\<lparr>validationTypeSelector := to_String P (get_prop criteria (js ''type''))\<rparr>);
          p2 = handleValidationChange p1
      in if truthy P criteria then
           if get_prop criteria (js ''type'') = JStr (js ''exact_match'')
              \<or> get_prop criteria (js ''type'') = JStr (js ''contains'') then
             set_value (js ''expectedOutput'')
               (to_String P (js_or P (get_prop criteria (js ''expected'')) (JStr []))) p2
           else if get_prop criteria (js ''type'') = JStr (js ''function_call'') then
             let p3 = set_value (js ''functionName'')
                        (to_String P (js_or P (get_prop criteria (js ''function_name'')) (JStr []))) p2;
                 p4 = set_value (js ''functionArgs'')
                        (to_String P (JSON_stringify P (js_or P (get_prop criteria (js ''args'')) (JArr [])))) p3;
                 expected = get_prop criteria (js ''expected'');
                 expected' = (case expected of JStr _ \<Rightarrow> expected | _ \<Rightarrow> JSON_stringify P expected)
             in set_value (js ''expectedOutput'') (to_String P expected') p4
           else p2
         else p2)"

section \<open>Valid criteria\<close>





section \<open>A platform for the scenarios\<close>

text \<open>
  The theorems below hold for every platform. To apply them to the scenarios of the
  specification a platform has to be named. \<open>scenario_platform\<close> has the four numbers
  1, 2, 3 and 5 that occur there, and it answers as the built-ins do on the texts and
  values of the scenarios: \<^verbatim>\<open>JSON.parse\<close> reads \<^verbatim>\<open>[2, 3]\<close>, \<^verbatim>\<open>[2,3]\<close>, \<^verbatim>\<open>5\<close>,
  \<^verbatim>\<open>[1]\<close> and \<^verbatim>\<open>[]\<close> as the values they denote and throws on the empty text, on
  \<^verbatim>\<open>not json\<close> and on \<^verbatim>\<open>ok\<close>; \<^verbatim>\<open>JSON.stringify\<close> prints \<^verbatim>\<open>[2,3]\<close>, \<^verbatim>\<open>5\<close>,
  \<^verbatim>\<open>[1]\<close> and \<^verbatim>\<open>[]\<close> for these values. It is a table of these answers, not a model of
  the built-ins: no statement uses what it answers on any other text or value.
\<close>

datatype scenario_number = N1 | N2 | N3 | N5

definition scenario_platform :: "scenario_number platform" where
  "scenario_platform =
     \<lparr>JSON_parse =
        (\<lambda>s. if s = js ''[2, 3]'' \<or> s = js ''[2,3]'' then Some (JArr [JNum N2, JNum N3])
              else if s = js ''5'' then Some (JNum N5)
              else if s = js ''[1]'' then Some (JArr [JNum N1])
              else if s = js ''[]'' then Some (JArr [])
              else None),
      json_text =
        (\<lambda>v. if v = JArr [JNum N2, JNum N3] then js ''[2,3]''
              else if v = JNum N5 then js ''5''
              else if v = JArr [JNum N1] then js ''[1]''
              else if v = JArr [] then js ''[]''
              else js ''null''),
      number_to_string =
        (\<lambda>n. case n of N1 \<Rightarrow> js ''1'' | N2 \<Rightarrow> js ''2'' | N3 \<Rightarrow> js ''3'' | N5 \<Rightarrow> js ''5''),
      number_truthy = (\<lambda>n. True)\<rparr>"

section \<open>String literals\<close>

text \<open>Distinct literals of the script are distinct strings, and a control changes no
  literal without a line break.\<close>

lemma code_unit_of_char_inj: "(of_char c :: code_unit) = of_char d \<longleftrightarrow> c = d"
proof
  assume eq: "(of_char c :: code_unit) = of_char d"
  have u: "unat (of_char x :: code_unit) = of_char x" for x :: char
  proof -
    have "(of_char x :: nat) < 256" by simp
    then have "(of_char x :: nat) < 2 ^ 16" by (rule less_trans) simp
    then have "unat (of_nat (of_char x) :: code_unit) = of_char x"
      by (simp add: unsigned_of_nat take_bit_nat_eq_self)
    then show ?thesis by (simp add: of_nat_of_char)
  qed
  from eq have "unat (of_char c :: code_unit) = unat (of_char d :: code_unit)" by simp
  then have "(of_char c :: nat) = of_char d" by (simp only: u)
  then show "c = d" by simp
qed simp

lemma js_eq_iff [simp]: "js s = js t \<longleftrightarrow> s = t"
proof -
  have "inj (of_char :: char \<Rightarrow> code_unit)"
    by (rule injI) (simp add: code_unit_of_char_inj)
  then show ?thesis
    unfolding js_def by simp
qed

lemma js_empty [simp]: "js [] = []" "js s = [] \<longleftrightarrow> s = []" "[] = js s \<longleftrightarrow> s = []"
  by (auto simp: js_def)

lemma of_char_line_feed: "(of_char a :: code_unit) = line_feed \<longleftrightarrow> a = CHR 0x0A"
  using code_unit_of_char_inj [of a "CHR 0x0A"] by (simp add: line_feed_def)

lemma of_char_carriage_return: "(of_char a :: code_unit) = carriage_return \<longleftrightarrow> a = CHR 0x0D"
  using code_unit_of_char_inj [of a "CHR 0x0D"] by (simp add: carriage_return_def)

lemma strip_newlines_js:
  "strip_newlines (js s) = js (filter (\<lambda>c. c \<noteq> CHR 0x0A \<and> c \<noteq> CHR 0x0D) s)"
  by (induction s)
     (simp_all add: strip_newlines_def js_def of_char_line_feed of_char_carriage_return)

section \<open>Properties of the renderer\<close>

text \<open>
  Claim C5. After a call of the renderer the container holds exactly the controls of the
  selected type, each with an empty value, whatever the container held before: one text
  area for \<^verbatim>\<open>exact_match\<close> and \<^verbatim>\<open>contains\<close>, three text inputs for
  \<^verbatim>\<open>function_call\<close>, nothing for any other type. Rendering \<^verbatim>\<open>function_call\<close> and
  then \<^verbatim>\<open>exact_match\<close> leaves the single expected-output field.
\<close>

theorem render_shows_only_fields_of_type:
  "map (\<lambda>f. (field_id f, field_control f, field_value f))
     (validationFieldsContainer
        (handleValidationChange \<lparr>validationTypeSelector = t, validationFieldsContainer = fs\<rparr>))
   = (if t = js ''exact_match'' \<or> t = js ''contains'' then [(js ''expectedOutput'', Textarea, [])]
      else if t = js ''function_call'' then
        [(js ''functionName'', InputText, []), (js ''functionArgs'', InputText, []),
         (js ''expectedOutput'', InputText, [])]
      else [])
   \<and> validationFieldsContainer
         (handleValidationChange
            ((handleValidationChange (p\<lparr>validationTypeSelector := js ''function_call''\<rparr>))
               \<lparr>validationTypeSelector := js ''exact_match''\<rparr>))
       = [\<lparr>field_label = js ''Expected Output'', field_control = Textarea,
           field_id = js ''expectedOutput'', field_value = []\<rparr>]"
  by (simp add: handleValidationChange_def Let_def fieldTemplates_expected_def
      fieldTemplates_function_call_def)

text \<open>
  Claim C8. Calling the renderer twice in a row gives the same page as calling it once,
  and the ids of the installed controls are pairwise distinct.
\<close>

theorem render_idempotent:
  "handleValidationChange (handleValidationChange p) = handleValidationChange p
   \<and> distinct (map field_id (validationFieldsContainer (handleValidationChange p)))"
  by (simp add: handleValidationChange_def Let_def fieldTemplates_expected_def
      fieldTemplates_function_call_def)

section \<open>Properties of build\<close>

text \<open>
  Claim C3. \<^verbatim>\<open>buildValidationCriteria\<close> returns \<^verbatim>\<open>null\<close> exactly when the selector's
  value is \<^verbatim>\<open>none\<close> or empty; the \<^verbatim>\<open>type\<close> of what it returns is never the string
  \<^verbatim>\<open>none\<close>, and a returned object carries the selector's value as its type.
\<close>

theorem build_null_iff_none_or_empty:
  "(snd (buildValidationCriteria P p) = JNull
      \<longleftrightarrow> validationTypeSelector p = js ''none'' \<or> validationTypeSelector p = [])
   \<and> get_prop (snd (buildValidationCriteria P p)) (js ''type'') \<noteq> JStr (js ''none'')
   \<and> (snd (buildValidationCriteria P p) = JNull
        \<or> get_prop (snd (buildValidationCriteria P p)) (js ''type'')
            = JStr (validationTypeSelector p))"
  by (simp add: buildValidationCriteria_def Let_def assign_prop_def get_prop_def
      split: option.splits prod.splits)

section \<open>Properties of populate\<close>

text \<open>
  Claim C9. After \<^verbatim>\<open>populateValidationFields(null)\<close> the selector is \<^verbatim>\<open>none\<close>, the
  container is empty, and \<^verbatim>\<open>buildValidationCriteria\<close> returns \<^verbatim>\<open>null\<close> with no
  notification; the same holds when the argument is \<^verbatim>\<open>undefined\<close>.
\<close>

theorem populate_null_then_build_null:
  "buildValidationCriteria P (populateValidationFields P JNull p) = ([], JNull)
   \<and> validationTypeSelector (populateValidationFields P JNull p) = js ''none''
   \<and> validationFieldsContainer (populateValidationFields P JNull p) = []
   \<and> buildValidationCriteria P (populateValidationFields P JUndefined p) = ([], JNull)"
  by (simp add: populateValidationFields_def handleValidationChange_def
      buildValidationCriteria_def truthy_def Let_def)

theorem populate_null_then_build_null_witness:
  "buildValidationCriteria scenario_platform
     (populateValidationFields scenario_platform JNull
        \<lparr>validationTypeSelector = js ''function_call'',
         validationFieldsContainer =
           assign_value (js ''functionName'') (js ''f'') fieldTemplates_function_call\<rparr>)
     = ([], JNull)
   \<and> validationFieldsContainer
       (populateValidationFields scenario_platform JNull
          \<lparr>validationTypeSelector = js ''function_call'',
           validationFieldsContainer =
             assign_value (js ''functionName'') (js ''f'') fieldTemplates_function_call\<rparr>)
     = []"
  using populate_null_then_build_null
    [of scenario_platform
        "\<lparr>validationTypeSelector = js ''function_call'',
         validationFieldsContainer =
           assign_value (js ''functionName'') (js ''f'') fieldTemplates_function_call\<rparr>"]
  by simp

section \<open>Build: the function-call branch\<close>

lemma build_function_call_eq:
  assumes "validationTypeSelector p = js ''function_call''"
  shows "buildValidationCriteria P p =
     ((case JSON_parse P (value_or (getElementById p (js ''functionArgs'')) (js ''[]'')) of
         Some a \<Rightarrow> []
       | None \<Rightarrow> [ConsoleError args_error_log, Alert args_error_alert]),
      JObj [(js ''type'', JStr (js ''function_call'')),
            (js ''function_name'', JStr (value_or (getElementById p (js ''functionName'')) [])),
            (js ''args'',
               case JSON_parse P (value_or (getElementById p (js ''functionArgs'')) (js ''[]'')) of
                 Some a \<Rightarrow> a
               | None \<Rightarrow> JArr []),
            (js ''expected'',
               case JSON_parse P (value_or (getElementById p (js ''expectedOutput'')) []) of
                 Some e \<Rightarrow> e
               | None \<Rightarrow> JStr (value_or (getElementById p (js ''expectedOutput'')) []))])"
  using assms
  by (simp add: buildValidationCriteria_def Let_def assign_prop_def split: option.split)

text \<open>
  Claim C6. With the selector at \<^verbatim>\<open>function_call\<close>, build returns the object with the
  four properties in this order: \<^verbatim>\<open>function_name\<close> is the text of the function-name
  field, \<^verbatim>\<open>args\<close> is what \<^verbatim>\<open>JSON.parse\<close> reads from the arguments field,
  \<^verbatim>\<open>expected\<close> is what \<^verbatim>\<open>JSON.parse\<close> reads from the expected field or, when it
  throws, the text itself. Only a failure on the arguments produces a notification. With
  \<^verbatim>\<open>add_numbers\<close>, \<^verbatim>\<open>[2, 3]\<close> and \<^verbatim>\<open>5\<close> in the fields, on a platform that reads
  \<^verbatim>\<open>[2, 3]\<close> as the array of two numbers and \<^verbatim>\<open>5\<close> as a number, the result is the
  object of scenario B.
\<close>

theorem build_function_call_fields:
  "(validationTypeSelector p = js ''function_call'' \<longrightarrow>
      buildValidationCriteria P p =
       ((case JSON_parse P (value_or (getElementById p (js ''functionArgs'')) (js ''[]'')) of
           Some a \<Rightarrow> []
         | None \<Rightarrow> [ConsoleError args_error_log, Alert args_error_alert]),
        JObj [(js ''type'', JStr (js ''function_call'')),
              (js ''function_name'', JStr (value_or (getElementById p (js ''functionName'')) [])),
              (js ''args'',
                 case JSON_parse P (value_or (getElementById p (js ''functionArgs'')) (js ''[]'')) of
                   Some a \<Rightarrow> a
                 | None \<Rightarrow> JArr []),
              (js ''expected'',
                 case JSON_parse P (value_or (getElementById p (js ''expectedOutput'')) []) of
                   Some e \<Rightarrow> e
                 | None \<Rightarrow> JStr (value_or (getElementById p (js ''expectedOutput'')) []))]))
   \<and> (JSON_parse P (js ''[2, 3]'') = Some (JArr [JNum two, JNum three])
        \<and> JSON_parse P (js ''5'') = Some (JNum five) \<longrightarrow>
      buildValidationCriteria P
        \<lparr>validationTypeSelector = js ''function_call'',
         validationFieldsContainer =
           [\<lparr>field_label = js ''Function Name'', field_control = InputText,
             field_id = js ''functionName'', field_value = js ''add_numbers''\<rparr>,
            \<lparr>field_label = js ''Arguments (as JSON array)'', field_control = InputText,
             field_id = js ''functionArgs'', field_value = js ''[2, 3]''\<rparr>,
            \<lparr>field_label = js ''Expected Return Value'', field_control = InputText,
             field_id = js ''expectedOutput'', field_value = js ''5''\<rparr>]\<rparr>
       = ([], JObj [(js ''type'', JStr (js ''function_call'')),
                    (js ''function_name'', JStr (js ''add_numbers'')),
                    (js ''args'', JArr [JNum two, JNum three]),
                    (js ''expected'', JNum five)]))"
proof (intro conjI impI)
  assume "validationTypeSelector p = js ''function_call''"
  then show "buildValidationCriteria P p =
       ((case JSON_parse P (value_or (getElementById p (js ''functionArgs'')) (js ''[]'')) of
           Some a \<Rightarrow> []
         | None \<Rightarrow> [ConsoleError args_error_log, Alert args_error_alert]),
        JObj [(js ''type'', JStr (js ''function_call'')),
              (js ''function_name'', JStr (value_or (getElementById p (js ''functionName'')) [])),
              (js ''args'',
                 case JSON_parse P (value_or (getElementById p (js ''functionArgs'')) (js ''[]'')) of
                   Some a \<Rightarrow> a
                 | None \<Rightarrow> JArr []),
              (js ''expected'',
                 case JSON_parse P (value_or (getElementById p (js ''expectedOutput'')) []) of
                   Some e \<Rightarrow> e
                 | None \<Rightarrow> JStr (value_or (getElementById p (js ''expectedOutput'')) []))])"
    by (rule build_function_call_eq)
next
  let ?p = "\<lparr>validationTypeSelector = js ''function_call'',
         validationFieldsContainer =
           [\<lparr>field_label = js ''Function Name'', field_control = InputText,
             field_id = js ''functionName'', field_value = js ''add_numbers''\<rparr>,
            \<lparr>field_label = js ''Arguments (as JSON array)'', field_control = InputText,
             field_id = js ''functionArgs'', field_value = js ''[2, 3]''\<rparr>,
            \<lparr>field_label = js ''Expected Return Value'', field_control = InputText,
             field_id = js ''expectedOutput'', field_value = js ''5''\<rparr>]\<rparr>"
  assume facts: "JSON_parse P (js ''[2, 3]'') = Some (JArr [JNum two, JNum three])
        \<and> JSON_parse P (js ''5'') = Some (JNum five)"
  have sel: "validationTypeSelector ?p = js ''function_call''" by simp
  show "buildValidationCriteria P ?p
       = ([], JObj [(js ''type'', JStr (js ''function_call'')),
                    (js ''function_name'', JStr (js ''add_numbers'')),
                    (js ''args'', JArr [JNum two, JNum three]),
                    (js ''expected'', JNum five)])"
    unfolding build_function_call_eq [OF sel]
    using facts by (simp add: getElementById_def value_or_def)
qed

theorem build_function_call_fields_witness:
  "buildValidationCriteria scenario_platform
     \<lparr>validationTypeSelector = js ''function_call'',
      validationFieldsContainer =
        [\<lparr>field_label = js ''Function Name'', field_control = InputText,
          field_id = js ''functionName'', field_value = js ''add_numbers''\<rparr>,
         \<lparr>field_label = js ''Arguments (as JSON array)'', field_control = InputText,
          field_id = js ''functionArgs'', field_value = js ''[2, 3]''\<rparr>,
         \<lparr>field_label = js ''Expected Return Value'', field_control = InputText,
          field_id = js ''expectedOutput'', field_value = js ''5''\<rparr>]\<rparr>
   = ([], JObj [(js ''type'', JStr (js ''function_call'')),
                (js ''function_name'', JStr (js ''add_numbers'')),
                (js ''args'', JArr [JNum N2, JNum N3]),
                (js ''expected'', JNum N5)])"
  using build_function_call_fields [of _ scenario_platform N2 N3 N5]
  by (simp add: scenario_platform_def)

text \<open>
  Claim C2, as stated, fails on an empty arguments field: the empty text is no JSON, yet
  build reads it as \<^verbatim>\<open>[]\<close> and notifies nobody.
\<close>

theorem build_empty_args_field_no_alert:
  "map_option field_value
     (getElementById
        \<lparr>validationTypeSelector = js ''function_call'',
         validationFieldsContainer = fieldTemplates_function_call\<rparr> (js ''functionArgs''))
     = Some []
   \<and> JSON_parse scenario_platform [] = None
   \<and> buildValidationCriteria scenario_platform
        \<lparr>validationTypeSelector = js ''function_call'',
         validationFieldsContainer = fieldTemplates_function_call\<rparr>
       = ([], JObj [(js ''type'', JStr (js ''function_call'')), (js ''function_name'', JStr []),
                    (js ''args'', JArr []), (js ''expected'', JStr [])])"
  by (simp add: build_function_call_eq getElementById_def value_or_def
      fieldTemplates_function_call_def scenario_platform_def)

text \<open>
  Claim C2, amended. With the selector at \<^verbatim>\<open>function_call\<close> and a non-empty arguments
  field on whose text \<^verbatim>\<open>JSON.parse\<close> throws, build writes the console message and
  raises the alert, sets \<^verbatim>\<open>args\<close> to the empty array, and returns the criteria object,
  not \<^verbatim>\<open>null\<close>.
\<close>

theorem build_reports_invalid_args:
  assumes "validationTypeSelector p = js ''function_call''"
      and "getElementById p (js ''functionArgs'') = Some f"
      and "field_value f \<noteq> []"
      and "JSON_parse P (field_value f) = None"
  shows "fst (buildValidationCriteria P p) = [ConsoleError args_error_log, Alert args_error_alert]
         \<and> snd (buildValidationCriteria P p) \<noteq> JNull
         \<and> get_prop (snd (buildValidationCriteria P p)) (js ''type'') = JStr (js ''function_call'')
         \<and> get_prop (snd (buildValidationCriteria P p)) (js ''args'') = JArr []"
  using assms
  by (simp add: build_function_call_eq value_or_def get_prop_def)

theorem build_reports_invalid_args_witness:
  "fst (buildValidationCriteria scenario_platform
         \<lparr>validationTypeSelector = js ''function_call'',
          validationFieldsContainer =
            assign_value (js ''functionArgs'') (js ''not json'') fieldTemplates_function_call\<rparr>)
     = [ConsoleError args_error_log, Alert args_error_alert]
   \<and> get_prop (snd (buildValidationCriteria scenario_platform
         \<lparr>validationTypeSelector = js ''function_call'',
          validationFieldsContainer =
            assign_value (js ''functionArgs'') (js ''not json'') fieldTemplates_function_call\<rparr>))
        (js ''args'')
     = JArr []
   \<and> snd (buildValidationCriteria scenario_platform
         \<lparr>validationTypeSelector = js ''function_call'',
          validationFieldsContainer =
            assign_value (js ''functionArgs'') (js ''not json'') fieldTemplates_function_call\<rparr>)
     \<noteq> JNull"
  using build_reports_invalid_args
    [of "\<lparr>validationTypeSelector = js ''function_call'',
          validationFieldsContainer =
            assign_value (js ''functionArgs'') (js ''not json'') fieldTemplates_function_call\<rparr>"
        "\<lparr>field_label = js ''Arguments (as JSON array)'', field_control = InputText,
          field_id = js ''functionArgs'', field_value = js ''not json''\<rparr>"
        scenario_platform]
  by (simp add: getElementById_def fieldTemplates_function_call_def scenario_platform_def
      sanitize_def strip_newlines_js)

section \<open>Build: the type of the result\<close>

text \<open>
  Claim C4, as stated, fails for a selector value outside the enumeration: build copies it
  into the object it returns.
\<close>

theorem build_copies_unrecognized_type:
  "buildValidationCriteria scenario_platform
     \<lparr>validationTypeSelector = js ''regex'', validationFieldsContainer = []\<rparr>
     = ([], JObj [(js ''type'', JStr (js ''regex''))])"
  by (simp add: buildValidationCriteria_def Let_def)

text \<open>
  Claim C4, amended. The \<^verbatim>\<open>type\<close> of every object that build returns is the selector's
  value, which is neither \<^verbatim>\<open>none\<close> nor empty. If the selector holds one of the four
  enumerated values, the type is \<^verbatim>\<open>exact_match\<close>, \<^verbatim>\<open>contains\<close> or
  \<^verbatim>\<open>function_call\<close>; any other selector value is returned as the type of an object
  with no other property.
\<close>

theorem build_type_is_selector_value:
  assumes "snd (buildValidationCriteria P p) = JObj ps"
  shows "get_prop (JObj ps) (js ''type'') = JStr (validationTypeSelector p)
         \<and> validationTypeSelector p \<noteq> js ''none'' \<and> validationTypeSelector p \<noteq> []
         \<and> (validationTypeSelector p
               \<in> {js ''none'', js ''exact_match'', js ''contains'', js ''function_call''}
              \<longrightarrow> get_prop (JObj ps) (js ''type'')
                    \<in> {JStr (js ''exact_match''), JStr (js ''contains''),
                       JStr (js ''function_call'')})
         \<and> (validationTypeSelector p
               \<notin> {js ''none'', js ''exact_match'', js ''contains'', js ''function_call''}
              \<longrightarrow> ps = [(js ''type'', JStr (validationTypeSelector p))])"
  using assms
  by (auto simp add: buildValidationCriteria_def Let_def assign_prop_def get_prop_def
      split: option.splits prod.splits if_splits)

theorem build_type_is_selector_value_witness:
  "snd (buildValidationCriteria scenario_platform
          \<lparr>validationTypeSelector = js ''exact_match'',
           validationFieldsContainer = fieldTemplates_expected\<rparr>)
     = JObj [(js ''type'', JStr (js ''exact_match'')), (js ''expected'', JStr [])]
   \<and> get_prop (JObj [(js ''type'', JStr (js ''exact_match'')), (js ''expected'', JStr [])])
        (js ''type'')
     \<in> {JStr (js ''exact_match''), JStr (js ''contains''), JStr (js ''function_call'')}"
proof -
  let ?p = "\<lparr>validationTypeSelector = js ''exact_match'',
             validationFieldsContainer = fieldTemplates_expected\<rparr>"
  have built: "snd (buildValidationCriteria scenario_platform ?p)
                 = JObj [(js ''type'', JStr (js ''exact_match'')), (js ''expected'', JStr [])]"
    by (simp add: buildValidationCriteria_def Let_def assign_prop_def getElementById_def
        value_or_def fieldTemplates_expected_def)
  from build_type_is_selector_value [OF built] built show ?thesis
    by (simp add: get_prop_def)
qed

section \<open>Populate: the function-call branch\<close>

lemma get_prop_type_truthy:
  "get_prop c (js ''type'') = JStr t \<Longrightarrow>
     truthy P c \<and> truthy P (get_prop c (js ''type'')) = (t \<noteq> [])"
  by (cases c) (simp_all add: get_prop_def truthy_def)

lemma populate_function_call_page:
  assumes "get_prop c (js ''type'') = JStr (js ''function_call'')"
  shows "populateValidationFields P c p =
     \<lparr>validationTypeSelector = js ''function_call'',
      validationFieldsContainer =
        [\<lparr>field_label = js ''Function Name'', field_control = InputText,
          field_id = js ''functionName'',
          field_value =
            strip_newlines (to_String P (js_or P (get_prop c (js ''function_name'')) (JStr [])))\<rparr>,
         \<lparr>field_label = js ''Arguments (as JSON array)'', field_control = InputText,
          field_id = js ''functionArgs'',
          field_value =
            strip_newlines
              (to_String P (JSON_stringify P (js_or P (get_prop c (js ''args'')) (JArr []))))\<rparr>,
         \<lparr>field_label = js ''Expected Return Value'', field_control = InputText,
          field_id = js ''expectedOutput'',
          field_value =
            strip_newlines
              (to_String P (case get_prop c (js ''expected'') of
                              JStr s \<Rightarrow> JStr s
                            | v \<Rightarrow> JSON_stringify P v))\<rparr>]\<rparr>"
proof -
  from assms have t: "truthy P c" "truthy P (get_prop c (js ''type''))"
    using get_prop_type_truthy [of c "js ''function_call''" P] by simp_all
  show ?thesis
    using assms t
    by (simp add: populateValidationFields_def handleValidationChange_def Let_def set_value_def
        fieldTemplates_function_call_def sanitize_def split: jsval.split)
qed

text \<open>
  Claim C7, as stated, fails for a string with a line break: the expected field of a
  function call is a text input, which drops the line feed of \<^verbatim>\<open>x\ny\<close> and shows
  \<^verbatim>\<open>xy\<close>.
\<close>

theorem populate_expected_newline_stripped:
  "map_option field_value
     (getElementById
        (populateValidationFields scenario_platform
           (JObj [(js ''type'', JStr (js ''function_call'')), (js ''function_name'', JStr (js ''f'')),
                  (js ''args'', JArr [JNum N1]),
                  (js ''expected'', JStr (js [CHR ''x'', CHR 0x0A, CHR ''y'']))])
           \<lparr>validationTypeSelector = js ''none'', validationFieldsContainer = []\<rparr>)
        (js ''expectedOutput''))
   = Some (js ''xy'')"
proof -
  let ?c = "JObj [(js ''type'', JStr (js ''function_call'')), (js ''function_name'', JStr (js ''f'')),
                  (js ''args'', JArr [JNum N1]),
                  (js ''expected'', JStr (js [CHR ''x'', CHR 0x0A, CHR ''y'']))]"
  have ty: "get_prop ?c (js ''type'') = JStr (js ''function_call'')"
    by (simp add: get_prop_def)
  show ?thesis
    unfolding populate_function_call_page [OF ty]
    by (simp add: getElementById_def get_prop_def strip_newlines_js)
qed

text \<open>
  Claim C7, amended. For a criteria object of type \<^verbatim>\<open>function_call\<close>, populate leaves
  in the expected field, with line feeds and carriage returns removed: the string
  \<^verbatim>\<open>criteria.expected\<close> itself when it is a string (so a string without line breaks
  shows unchanged), the text \<^verbatim>\<open>undefined\<close> when it is \<^verbatim>\<open>undefined\<close>, and otherwise
  the text that \<^verbatim>\<open>JSON.stringify\<close> returns for it. For scenario D the field shows
  \<^verbatim>\<open>ok\<close>; for the number 5 it shows \<^verbatim>\<open>5\<close>.
\<close>

theorem populate_function_call_expected:
  assumes "get_prop c (js ''type'') = JStr (js ''function_call'')"
  shows "map_option field_value
           (getElementById (populateValidationFields P c p) (js ''expectedOutput''))
         = Some (strip_newlines
                   (case get_prop c (js ''expected'') of
                      JStr s \<Rightarrow> s
                    | JUndefined \<Rightarrow> js ''undefined''
                    | v \<Rightarrow> json_text P v))"
  unfolding populate_function_call_page [OF assms]
  by (simp add: getElementById_def JSON_stringify_def split: jsval.split)

theorem populate_function_call_expected_witness:
  "map_option field_value
     (getElementById
        (populateValidationFields scenario_platform
           (JObj [(js ''type'', JStr (js ''function_call'')), (js ''function_name'', JStr (js ''f'')),
                  (js ''args'', JArr [JNum N1]), (js ''expected'', JStr (js ''ok''))])
           \<lparr>validationTypeSelector = js ''none'', validationFieldsContainer = []\<rparr>)
        (js ''expectedOutput''))
   = Some (js ''ok'')
   \<and> map_option field_value
     (getElementById
        (populateValidationFields scenario_platform
           (JObj [(js ''type'', JStr (js ''function_call'')), (js ''function_name'', JStr (js ''f'')),
                  (js ''args'', JArr [JNum N1]), (js ''expected'', JNum N5)])
           \<lparr>validationTypeSelector = js ''none'', validationFieldsContainer = []\<rparr>)
        (js ''expectedOutput''))
   = Some (js ''5'')"
  using populate_function_call_expected
    [of "JObj [(js ''type'', JStr (js ''function_call'')), (js ''function_name'', JStr (js ''f'')),
               (js ''args'', JArr [JNum N1]), (js ''expected'', JStr (js ''ok''))]"
        scenario_platform
        "\<lparr>validationTypeSelector = js ''none'', validationFieldsContainer = []\<rparr>"]
    populate_function_call_expected
    [of "JObj [(js ''type'', JStr (js ''function_call'')), (js ''function_name'', JStr (js ''f'')),
               (js ''args'', JArr [JNum N1]), (js ''expected'', JNum N5)]"
        scenario_platform
        "\<lparr>validationTypeSelector = js ''none'', validationFieldsContainer = []\<rparr>"]
  by (simp add: get_prop_def strip_newlines_js scenario_platform_def)

text \<open>
  Claim C10. For a criteria object of type \<^verbatim>\<open>function_call\<close> without the property
  \<^verbatim>\<open>expected\<close>, populate leaves the text \<^verbatim>\<open>undefined\<close> in the expected field.
\<close>

theorem populate_missing_expected_shows_undefined:
  assumes "map_of ps (js ''type'') = Some (JStr (js ''function_call''))"
      and "map_of ps (js ''expected'') = None"
  shows "map_option field_value
           (getElementById (populateValidationFields P (JObj ps) p) (js ''expectedOutput''))
         = Some (js ''undefined'')"
proof -
  have ty: "get_prop (JObj ps) (js ''type'') = JStr (js ''function_call'')"
    using assms(1) by (simp add: get_prop_def)
  have ex: "get_prop (JObj ps) (js ''expected'') = JUndefined"
    using assms(2) by (simp add: get_prop_def)
  show ?thesis
    unfolding populate_function_call_page [OF ty]
    using ex by (simp add: getElementById_def JSON_stringify_def strip_newlines_js)
qed

theorem populate_missing_expected_shows_undefined_witness:
  "map_option field_value
     (getElementById
        (populateValidationFields scenario_platform
           (JObj [(js ''type'', JStr (js ''function_call'')), (js ''function_name'', JStr (js ''f'')),
                  (js ''args'', JArr [JNum N1])])
           \<lparr>validationTypeSelector = js ''none'', validationFieldsContainer = []\<rparr>)
        (js ''expectedOutput''))
   = Some (js ''undefined'')"
  using populate_missing_expected_shows_undefined
    [of "[(js ''type'', JStr (js ''function_call'')), (js ''function_name'', JStr (js ''f'')),
          (js ''args'', JArr [JNum N1])]"
        scenario_platform
        "\<lparr>validationTypeSelector = js ''none'', validationFieldsContainer = []\<rparr>"]
  by simp

section \<open>The round trip\<close>









end
